theory Spec2Isabelle
  imports Complex_Main
begin

section \<open>PsyBot command templates: data model\<close>

text \<open>
  A shallow embedding of \<^verbatim>\<open>src/bin/templates/command.js\<close> (classes
  \<^verbatim>\<open>DefaultCommand\<close>, \<^verbatim>\<open>DefaultAlias\<close>, \<^verbatim>\<open>CommandProperty\<close>) and of
  \<^verbatim>\<open>Utils.log\<close> from \<^verbatim>\<open>src/bin/util.js\<close>.

  Fields keep the names of the source without the leading underscore (an Isabelle name
  cannot start with one). The names \<^verbatim>\<open>type\<close> and \<^verbatim>\<open>id\<close> of a rule entry are prefixed.
\<close>

subsection \<open>The chat message, as far as \<^verbatim>\<open>checkProperties\<close> reads it\<close>

record Role =
  role_id :: string
  calculatedPosition :: int

record Channel =
  channel_id :: string
  channel_type :: string

text \<open>\<^verbatim>\<open>member.roles\<close> and \<^verbatim>\<open>guild.roles\<close> are collections keyed by role id; \<^verbatim>\<open>get\<close>
  of a missing key gives \<^verbatim>\<open>undefined\<close>, here \<open>None\<close>. The message is taken to carry its
  channel, member and guild, which \<^verbatim>\<open>checkProperties\<close> reads without a test.\<close>

record GuildMember =
  member_id :: string
  highestRole :: Role
  roles :: "string \<rightharpoonup> Role"

record Guild =
  guild_roles :: "string \<rightharpoonup> Role"

record DiscordMessage =
  channel :: Channel
  member :: GuildMember
  guild :: Guild

subsection \<open>Rule entries and the error table\<close>

text \<open>An entry \<^verbatim>\<open>{type, id, exact?}\<close>; \<open>exact = None\<close> is an entry without the optional
  property (\<^verbatim>\<open>undefined\<close>, which is falsy).\<close>

record entry =
  entry_type :: string
  entry_id :: string
  exact :: "bool option"

text \<open>The table \<^verbatim>\<open>require("../../errors").commands\<close> is not part of the sources; it is a
  parameter of the model, holding the six strings the code reads from it.\<close>

record ErrorStrings =
  blacklistedUser :: string
  permissionError :: string
  dmDisabled :: string
  minArgLimit :: string
  maxArgLimit :: string
  notImplemented :: string

text \<open>\<^verbatim>\<open>require("../../config")\<close>, of which the code reads \<^verbatim>\<open>owner\<close>.\<close>

record Config =
  owner :: string

subsection \<open>Values, exceptions, effects\<close>

text \<open>What \<^verbatim>\<open>checkProperties\<close> returns: \<^verbatim>\<open>true\<close>, \<^verbatim>\<open>false\<close> or an error string.\<close>

datatype resp = RBool bool | RStr string

text \<open>What \<^verbatim>\<open>run\<close>, \<^verbatim>\<open>exec\<close>, \<^verbatim>\<open>finish\<close> and \<^verbatim>\<open>_updatePermissions\<close> return.\<close>

datatype jsval = JUndefined | JBool bool | JStr string | JArr "jsval list"

datatype exn = ReferenceError string | TypeError string

text \<open>The key-value store collaborator: \<^verbatim>\<open>getDatabase(name)\<close> gives a record whose
  \<^verbatim>\<open>_data\<close> maps a command name to its two lists, or is \<^verbatim>\<open>null\<close>.\<close>

record perm_lists =
  pl_whitelist :: "entry list"
  pl_blacklist :: "entry list"

record dbRet =
  data :: "(string \<rightharpoonup> perm_lists) option"

record dbSys =
  getDatabase :: "string \<Rightarrow> dbRet option"

record Manager =
  getSystem :: "string \<Rightarrow> dbSys option"

text \<open>\<^verbatim>\<open>ErrorReply.error(resp)\<close> (module \<^verbatim>\<open>../errorreply\<close>, not in the sources) is kept
  as an uninterpreted constructor. Effects are recorded as a list of events, oldest first.
  A log line is recorded without its time stamp.\<close>

datatype reply = ErrorReply_error resp

datatype event =
    Send string reply
  | Logged string "jsval list"
  | Commit dbRet

subsection \<open>\<^verbatim>\<open>CommandProperty\<close>\<close>

text \<open>The constructor assigns the first eight fields. \<open>manager\<close> is \<^verbatim>\<open>this._manager\<close>,
  which \<^verbatim>\<open>_updatePermissions\<close> reads; \<open>None\<close> is \<^verbatim>\<open>undefined\<close>.\<close>

record CommandProperty =
  command :: string
  minArgs :: int
  maxArgs :: int
  allowDM :: bool
  fixedPermissions :: bool
  whitelist :: "entry list"
  blacklist :: "entry list"
  useWhitelist :: bool
  manager :: "Manager option"

definition CommandProperty_new :: "Config \<Rightarrow> string \<Rightarrow> CommandProperty" where
  "CommandProperty_new C commandName =
     \<lparr> command = commandName,
       minArgs = -1,
       maxArgs = -1,
       allowDM = True,
       fixedPermissions = True,
       whitelist = [\<lparr> entry_type = ''user'', entry_id = owner C, exact = None \<rparr>],
       blacklist = [],
       useWhitelist = True,
       manager = None \<rparr>"

definition setArgs :: "int \<Rightarrow> int \<Rightarrow> CommandProperty \<Rightarrow> CommandProperty" where
  "setArgs mn mx this = this\<lparr> minArgs := mn, maxArgs := mx \<rparr>"

definition noArgs :: "CommandProperty \<Rightarrow> CommandProperty" where
  "noArgs this = this\<lparr> minArgs := -1, maxArgs := -1 \<rparr>"

definition allowDM_set :: "bool \<Rightarrow> CommandProperty \<Rightarrow> CommandProperty" where
  "allowDM_set dm this = this\<lparr> allowDM := dm \<rparr>"

definition setFixedPermissions :: "bool \<Rightarrow> CommandProperty \<Rightarrow> CommandProperty" where
  "setFixedPermissions val this = this\<lparr> fixedPermissions := val \<rparr>"

definition forceWhitelist :: "bool \<Rightarrow> CommandProperty \<Rightarrow> CommandProperty" where
  "forceWhitelist val this = this\<lparr> useWhitelist := val \<rparr>"

text \<open>The properties this module itself can produce: the constructor, then any chain of
  the fluent setters.\<close>

inductive built :: "Config \<Rightarrow> CommandProperty \<Rightarrow> bool" for C :: Config where
  built_new: "built C (CommandProperty_new C commandName)"
| built_setArgs: "built C p \<Longrightarrow> built C (setArgs mn mx p)"
| built_noArgs: "built C p \<Longrightarrow> built C (noArgs p)"
| built_allowDM: "built C p \<Longrightarrow> built C (allowDM_set dm p)"
| built_setFixedPermissions: "built C p \<Longrightarrow> built C (setFixedPermissions val p)"
| built_forceWhitelist: "built C p \<Longrightarrow> built C (forceWhitelist val p)"

subsection \<open>\<^verbatim>\<open>Utils.log\<close>\<close>

text \<open>\<^verbatim>\<open>log(provClass, ...values)\<close> writes the time stamp and the label (\<^verbatim>\<open>"Unknown"\<close> when
  the label is \<^verbatim>\<open>null\<close> or \<^verbatim>\<open>undefined\<close>), shifts the label out of \<^verbatim>\<open>arguments\<close> and
  prints what is left.\<close>

definition Utils_log :: "string option \<Rightarrow> jsval list \<Rightarrow> event" where
  "Utils_log provClass vals =
     Logged (case provClass of None \<Rightarrow> ''Unknown'' | Some l \<Rightarrow> l) vals"

subsection \<open>\<^verbatim>\<open>DefaultCommand\<close>\<close>

record DefaultCommand =
  cmd_manager :: Manager
  isAlias :: bool
  aliases :: "string list"
  name :: string
  properties :: CommandProperty
  run :: "DiscordMessage \<Rightarrow> string list \<Rightarrow> jsval"

text \<open>The base class's \<^verbatim>\<open>run\<close>: \<^verbatim>\<open>[false, ErrorStrings.notImplemented]\<close>.\<close>

definition DefaultCommand_run :: "ErrorStrings \<Rightarrow> DiscordMessage \<Rightarrow> string list \<Rightarrow> jsval" where
  "DefaultCommand_run E message args = JArr [JBool False, JStr (notImplemented E)]"

definition DefaultCommand_new ::
  "ErrorStrings \<Rightarrow> Manager \<Rightarrow> CommandProperty \<Rightarrow> string \<Rightarrow> DefaultCommand" where
  "DefaultCommand_new E mgr props nm =
     \<lparr> cmd_manager = mgr,
       isAlias = False,
       aliases = [],
       name = nm,
       properties = props,
       run = DefaultCommand_run E \<rparr>"

section \<open>\<^verbatim>\<open>checkProperties\<close>\<close>

text \<open>The body of the blacklist loop. Each \<^verbatim>\<open>break\<close> leaves the \<^verbatim>\<open>switch\<close> only, so the
  loop visits every entry and a later match overwrites an earlier one.\<close>

definition blacklist_step ::
  "ErrorStrings \<Rightarrow> string \<Rightarrow> string \<Rightarrow> resp option \<Rightarrow> entry \<Rightarrow> resp option" where
  "blacklist_step E channelID userID isBlacklisted e =
     (if entry_type e = ''user'' then
        (if userID = entry_id e then Some (RStr (blacklistedUser E)) else isBlacklisted)
      else if entry_type e = ''channel'' then
        (if channelID = entry_id e then Some (RBool False) else isBlacklisted)
      else isBlacklisted)"

fun blacklist_scan ::
  "ErrorStrings \<Rightarrow> string \<Rightarrow> string \<Rightarrow> resp option \<Rightarrow> entry list \<Rightarrow> resp option" where
  "blacklist_scan E channelID userID isBlacklisted [] = isBlacklisted"
| "blacklist_scan E channelID userID isBlacklisted (e # es) =
     blacklist_scan E channelID userID (blacklist_step E channelID userID isBlacklisted e) es"

text \<open>The body of the whitelist loop after its leading \<^verbatim>\<open>if(isWhitelisted) break\<close>.
  \<open>isWhitelisted\<close> is \<^verbatim>\<open>null\<close> (\<open>None\<close>) or \<^verbatim>\<open>true\<close>.\<close>

definition whitelist_step ::
  "DiscordMessage \<Rightarrow> bool option \<Rightarrow> entry \<Rightarrow> bool option" where
  "whitelist_step message isWhitelisted e =
     (let highRole = highestRole (member message);
          rls = roles (member message);
          userID = member_id (member message)
      in if entry_type e = ''user'' then
           (if entry_id e = userID then Some True else isWhitelisted)
         else if entry_type e = ''role'' then
           (if exact e = Some True then
              (if rls (entry_id e) \<noteq> None then Some True else isWhitelisted)
            else
              (case guild_roles (guild message) (entry_id e) of
                 None \<Rightarrow> isWhitelisted
               | Some lowRole \<Rightarrow>
                   if \<not> (calculatedPosition lowRole > calculatedPosition highRole)
                   then Some True else isWhitelisted))
         else isWhitelisted)"

fun whitelist_scan :: "DiscordMessage \<Rightarrow> bool option \<Rightarrow> entry list \<Rightarrow> bool option" where
  "whitelist_scan message isWhitelisted [] = isWhitelisted"
| "whitelist_scan message isWhitelisted (e # es) =
     (if isWhitelisted = Some True then isWhitelisted
      else whitelist_scan message (whitelist_step message isWhitelisted e) es)"

definition checkProperties ::
  "ErrorStrings \<Rightarrow> DefaultCommand \<Rightarrow> DiscordMessage \<Rightarrow> string list \<Rightarrow> resp" where
  "checkProperties E this message args =
     (let props = properties this;
          channelID = channel_id (channel message);
          userID = member_id (member message)
      in case blacklist_scan E channelID userID None (blacklist props) of
           Some isBlacklisted \<Rightarrow> isBlacklisted
         | None \<Rightarrow>
             if useWhitelist props \<and>
                whitelist_scan message None (whitelist props) \<noteq> Some True
             then RStr (permissionError E)
             else if \<not> allowDM props \<and> channel_type (channel message) = ''dm''
             then RStr (dmDisabled E)
             else if minArgs props \<noteq> -1 \<and> minArgs props > int (length args)
             then RStr (minArgLimit E)
             else if maxArgs props \<noteq> -1 \<and> maxArgs props < int (length args)
             then RStr (maxArgLimit E)
             else RBool True)"

section \<open>\<^verbatim>\<open>exec\<close> and \<^verbatim>\<open>DefaultAlias\<close>\<close>

text \<open>
  \<^verbatim>\<open>exec\<close> calls \<^verbatim>\<open>checkProperties(message, args)\<close> as a bare identifier, not as
  \<^verbatim>\<open>this.checkProperties\<close>. A method is no binding of the class body, and neither the
  function nor the module declares that name (the module binds \<^verbatim>\<open>Config\<close>,
  \<^verbatim>\<open>ErrorStrings\<close>, \<^verbatim>\<open>Utils\<close>, \<^verbatim>\<open>ErrorReply\<close> and the three classes), so the
  identifier resolves on the global object; unresolved, the call raises a
  \<^verbatim>\<open>ReferenceError\<close>. The global object is a parameter: \<open>globals\<close> maps a name to the
  function bound to it, if any, which is taken to return what a permission check returns.

  \<^verbatim>\<open>resp == true\<close> and \<^verbatim>\<open>resp != false\<close> are loose comparisons: a boolean compares as
  itself, a string is first converted to a number and compared with 1 or 0. That
  conversion (the language's \<^verbatim>\<open>StringToNumber\<close>) is a parameter too; \<open>None\<close> stands for
  a result that is no finite number.
\<close>

record realm =
  globals :: "string \<rightharpoonup> (DiscordMessage \<Rightarrow> string list \<Rightarrow> resp)"
  StringToNumber :: "string \<Rightarrow> rat option"

definition eq_true :: "realm \<Rightarrow> resp \<Rightarrow> bool" where
  "eq_true R resp = (case resp of RBool b \<Rightarrow> b | RStr s \<Rightarrow> StringToNumber R s = Some 1)"

definition ne_false :: "realm \<Rightarrow> resp \<Rightarrow> bool" where
  "ne_false R resp = (case resp of RBool b \<Rightarrow> b | RStr s \<Rightarrow> StringToNumber R s \<noteq> Some 0)"

definition exec ::
  "realm \<Rightarrow> DefaultCommand \<Rightarrow> DiscordMessage \<Rightarrow> string list \<Rightarrow> exn + (jsval \<times> event list)" where
  "exec R this message args =
     (case globals R ''checkProperties'' of
        None \<Rightarrow> Inl (ReferenceError ''checkProperties'')
      | Some f \<Rightarrow>
          (let resp = f message args
           in if eq_true R resp then Inr (run this message args, [])
              else if ne_false R resp then
                Inr (JBool False, [Send (channel_id (channel message)) (ErrorReply_error resp)])
              else Inr (JBool False, [])))"

record DefaultAlias =
  alias_name :: string
  alias_isAlias :: bool
  link :: DefaultCommand

definition DefaultAlias_new :: "string \<Rightarrow> DefaultCommand \<Rightarrow> DefaultAlias" where
  "DefaultAlias_new nm lnk = \<lparr> alias_name = nm, alias_isAlias = True, link = lnk \<rparr>"

text \<open>\<^verbatim>\<open>DefaultAlias.exec\<close> is the statement \<^verbatim>\<open>this._link.exec(message, args);\<close> with no
  \<^verbatim>\<open>return\<close>: an exception of the linked call propagates, its value is dropped.\<close>

definition alias_exec ::
  "realm \<Rightarrow> DefaultAlias \<Rightarrow> DiscordMessage \<Rightarrow> string list \<Rightarrow> exn + (jsval \<times> event list)" where
  "alias_exec R this message args =
     (case exec R (link this) message args of
        Inl e \<Rightarrow> Inl e
      | Inr (v, evs) \<Rightarrow> Inr (JUndefined, evs))"

section \<open>\<^verbatim>\<open>finish\<close> and \<^verbatim>\<open>_updatePermissions\<close>\<close>

text \<open>Reading a property of \<^verbatim>\<open>undefined\<close> raises a \<^verbatim>\<open>TypeError\<close>, named here after the
  property read. The result is the returned value, the updated property object and the
  events. \<^verbatim>\<open>db[this._command] = {...}\<close> writes into the fetched record, which is then
  committed.\<close>

definition updatePermissions ::
  "CommandProperty \<Rightarrow> exn + (jsval \<times> CommandProperty \<times> event list)" where
  "updatePermissions this =
     (case manager this of
        None \<Rightarrow> Inl (TypeError ''getSystem'')
      | Some mgr \<Rightarrow>
     (case getSystem mgr ''Database'' of
        None \<Rightarrow> Inl (TypeError ''getDatabase'')
      | Some dbs \<Rightarrow>
     (case getDatabase dbs ''cmd_lists'' of
        None \<Rightarrow> Inl (TypeError ''_data'')
      | Some dbr \<Rightarrow>
     (case data dbr of
        None \<Rightarrow>
          Inr (JBool False, this\<lparr> whitelist := [] \<rparr>,
               [Utils_log (Some (''CommandProperty '' @ command this))
                  [JStr ''Failed to load whitelist database'']])
      | Some db \<Rightarrow>
          (let fresh = \<lparr> pl_whitelist = whitelist this, pl_blacklist = blacklist this \<rparr>;
               (rec, evs) =
                 (case db (command this) of
                    None \<Rightarrow>
                      (fresh,
                       [Utils_log (Some (''CommandProperty '' @ command this))
                          [JStr ''Permission data does not exist, creating with default permissions.''],
                        Commit (dbr\<lparr> data := Some (db(command this \<mapsto> fresh)) \<rparr>)])
                  | Some r \<Rightarrow> (r, []))
           in Inr (JUndefined,
                   this\<lparr> whitelist := pl_whitelist rec, blacklist := pl_blacklist rec \<rparr>,
                   evs @ [Utils_log (Some (''CommandProperty '' @ command this))
                            [JStr ''Loaded permissions data'']]))))))"

definition finish :: "CommandProperty \<Rightarrow> exn + (jsval \<times> CommandProperty \<times> event list)" where
  "finish this =
     (case updatePermissions this of
        Inl e \<Rightarrow> Inl e
      | Inr (v, this', evs) \<Rightarrow> Inr (JUndefined, this', evs))"

section \<open>Concrete inputs\<close>

definition E0 :: ErrorStrings where
  "E0 = \<lparr> blacklistedUser = ''You are blacklisted.'',
          permissionError = ''You do not have permission.'',
          dmDisabled = ''Not available in DMs.'',
          minArgLimit = ''Too few arguments.'',
          maxArgLimit = ''Too many arguments.'',
          notImplemented = ''Not implemented.'' \<rparr>"

definition C0 :: Config where
  "C0 = \<lparr> owner = ''100'' \<rparr>"

definition helper :: Role where
  "helper = \<lparr> role_id = ''r2'', calculatedPosition = 2 \<rparr>"

definition moderator :: Role where
  "moderator = \<lparr> role_id = ''r5'', calculatedPosition = 5 \<rparr>"

definition admin :: Role where
  "admin = \<lparr> role_id = ''r9'', calculatedPosition = 9 \<rparr>"

text \<open>User 200, a moderator, writing in the guild text channel 7.\<close>

definition msg0 :: DiscordMessage where
  "msg0 = \<lparr> channel = \<lparr> channel_id = ''7'', channel_type = ''text'' \<rparr>,
            member = \<lparr> member_id = ''200'', highestRole = moderator,
                       roles = [''r5'' \<mapsto> moderator] \<rparr>,
            guild = \<lparr> guild_roles = [''r2'' \<mapsto> helper, ''r5'' \<mapsto> moderator, ''r9'' \<mapsto> admin] \<rparr> \<rparr>"

definition user_entry :: "string \<Rightarrow> entry" where
  "user_entry i = \<lparr> entry_type = ''user'', entry_id = i, exact = None \<rparr>"

definition channel_entry :: "string \<Rightarrow> entry" where
  "channel_entry i = \<lparr> entry_type = ''channel'', entry_id = i, exact = None \<rparr>"

definition role_entry :: "string \<Rightarrow> bool \<Rightarrow> entry" where
  "role_entry i x = \<lparr> entry_type = ''role'', entry_id = i, exact = Some x \<rparr>"

definition mgr0 :: Manager where
  "mgr0 = \<lparr> getSystem = (\<lambda>n. None) \<rparr>"

text \<open>A command whose properties whitelist user 200 and carry the given blacklist.\<close>

definition props0 :: "entry list \<Rightarrow> CommandProperty" where
  "props0 bl = (CommandProperty_new C0 ''ping'')\<lparr> whitelist := [user_entry ''200''], blacklist := bl \<rparr>"

definition cmd0 :: "CommandProperty \<Rightarrow> DefaultCommand" where
  "cmd0 p = DefaultCommand_new E0 mgr0 p ''ping''"

text \<open>A store whose fetch of \<^verbatim>\<open>"cmd_lists"\<close> returns a record without data, and a manager
  that serves it as its \<^verbatim>\<open>"Database"\<close> system.\<close>

definition dbs1 :: dbSys where
  "dbs1 = \<lparr> getDatabase = (\<lambda>n. if n = ''cmd_lists'' then Some \<lparr> data = None \<rparr> else None) \<rparr>"

definition mgr1 :: Manager where
  "mgr1 = \<lparr> getSystem = (\<lambda>n. if n = ''Database'' then Some dbs1 else None) \<rparr>"

text \<open>A global object on which \<^verbatim>\<open>checkProperties\<close> is bound to \<open>f\<close>.\<close>

definition bound_realm ::
  "(string \<Rightarrow> rat option) \<Rightarrow> (DiscordMessage \<Rightarrow> string list \<Rightarrow> resp) \<Rightarrow> realm" where
  "bound_realm N f = \<lparr> globals = [''checkProperties'' \<mapsto> f], StringToNumber = N \<rparr>"

text \<open>A property object set up for persisted permissions, with \<^verbatim>\<open>_manager\<close> assigned
  from outside the module.\<close>

definition props1 :: CommandProperty where
  "props1 = (setFixedPermissions False (CommandProperty_new C0 ''ping''))\<lparr> manager := Some mgr1 \<rparr>"

text \<open>Default-deny with an empty whitelist, and the given blacklist.\<close>

definition props2 :: "entry list \<Rightarrow> CommandProperty" where
  "props2 bl = (props0 bl)\<lparr> whitelist := [] \<rparr>"

text \<open>Between two and four arguments.\<close>

definition props3 :: CommandProperty where
  "props3 = setArgs 2 4 (props0 [])"

section \<open>The two scans\<close>

lemma blacklist_scan_filter:
  "blacklist_scan E c u acc (filter (\<lambda>e. entry_type e = ''user'' \<or> entry_type e = ''channel'') es)
     = blacklist_scan E c u acc es"
  by (induction es arbitrary: acc) (simp_all add: blacklist_step_def)

lemma whitelist_scan_True: "whitelist_scan message (Some True) es = Some True"
  by (cases es) simp_all

lemma whitelist_scan_filter:
  "whitelist_scan message acc (filter (\<lambda>e. entry_type e = ''user'' \<or> entry_type e = ''role'') es)
     = whitelist_scan message acc es"
  by (induction es arbitrary: acc) (simp_all add: whitelist_step_def Let_def whitelist_scan_True)

lemma blacklist_scan_no_match:
  "\<forall>e\<in>set es. \<not> (entry_type e = ''user'' \<and> entry_id e = u) \<and>
               \<not> (entry_type e = ''channel'' \<and> entry_id e = c)
   \<Longrightarrow> blacklist_scan E c u acc es = acc"
  by (induction es arbitrary: acc) (auto simp: blacklist_step_def)

lemma blacklist_step_hit:
  "acc \<in> {Some (RBool False), Some (RStr (blacklistedUser E))}
   \<Longrightarrow> blacklist_step E c u acc e \<in> {Some (RBool False), Some (RStr (blacklistedUser E))}"
  by (auto simp: blacklist_step_def)

lemma blacklist_scan_hit:
  "acc \<in> {Some (RBool False), Some (RStr (blacklistedUser E))}
   \<Longrightarrow> blacklist_scan E c u acc es \<in> {Some (RBool False), Some (RStr (blacklistedUser E))}"
proof (induction es arbitrary: acc)
  case Nil
  then show ?case by simp
next
  case (Cons e es)
  from Cons.prems have "blacklist_step E c u acc e \<in> {Some (RBool False), Some (RStr (blacklistedUser E))}"
    by (rule blacklist_step_hit)
  then show ?case using Cons.IH by simp
qed

lemma blacklist_scan_channel_match:
  assumes "e \<in> set es" "entry_type e = ''channel''" "entry_id e = c"
  shows "blacklist_scan E c u acc es \<in> {Some (RBool False), Some (RStr (blacklistedUser E))}"
  using assms
proof (induction es arbitrary: acc)
  case Nil
  then show ?case by simp
next
  case (Cons x xs)
  show ?case
  proof (cases "x = e")
    case True
    with Cons.prems have "blacklist_step E c u acc x = Some (RBool False)"
      by (simp add: blacklist_step_def)
    then show ?thesis using blacklist_scan_hit [of "Some (RBool False)" E c u xs] by simp
  next
    case False
    with Cons.prems have "e \<in> set xs" by simp
    then show ?thesis using Cons.IH Cons.prems by simp
  qed
qed

lemma blacklist_scan_only_channel:
  "\<forall>e\<in>set es. entry_type e = ''user'' \<longrightarrow> entry_id e \<noteq> u
   \<Longrightarrow> acc \<in> {None, Some (RBool False)}
   \<Longrightarrow> blacklist_scan E c u acc es \<in> {None, Some (RBool False)}"
  by (induction es arbitrary: acc) (auto simp: blacklist_step_def)

lemma whitelist_scan_iff:
  "whitelist_scan message None es = Some True \<longleftrightarrow>
     (\<exists>e\<in>set es. whitelist_step message None e = Some True)"
proof (induction es)
  case Nil
  then show ?case by simp
next
  case (Cons e es)
  show ?case
  proof (cases "whitelist_step message None e = Some True")
    case True
    then show ?thesis by (simp add: whitelist_scan_True)
  next
    case False
    then have "whitelist_step message None e = None"
      by (auto simp: whitelist_step_def Let_def split: if_splits option.splits)
    then show ?thesis using Cons.IH by simp
  qed
qed

text \<open>Under default-deny, an empty whitelist never lets a call through.\<close>

lemma checkProperties_empty_whitelist:
  assumes "useWhitelist (properties this)" and "whitelist (properties this) = []"
  shows "checkProperties E this message args \<noteq> RBool True"
proof (cases "blacklist_scan E (channel_id (channel message)) (member_id (member message)) None
                 (blacklist (properties this))")
  case None
  with assms show ?thesis by (simp add: checkProperties_def Let_def)
next
  case (Some r)
  have "blacklist_scan E c u None es \<noteq> Some (RBool True)" for c u es
  proof -
    have "acc \<noteq> Some (RBool True) \<Longrightarrow> blacklist_scan E c u acc es \<noteq> Some (RBool True)" for acc
      by (induction es arbitrary: acc) (auto simp: blacklist_step_def)
    then show ?thesis by simp
  qed
  with Some show ?thesis by (auto simp: checkProperties_def Let_def)
qed

section \<open>Helper facts on dispatch and construction\<close>

text \<open>With the identifier bound, the three branches of \<^verbatim>\<open>exec\<close> are the ones of the
  source, under the loose comparisons.\<close>

lemma exec_bound:
  "exec (bound_realm N f) this message args =
     (if eq_true (bound_realm N f) (f message args) then Inr (run this message args, [])
      else if ne_false (bound_realm N f) (f message args) then
        Inr (JBool False, [Send (channel_id (channel message)) (ErrorReply_error (f message args))])
      else Inr (JBool False, []))"
  by (simp add: exec_def bound_realm_def Let_def)

text \<open>An alias never returns anything but \<^verbatim>\<open>undefined\<close>, and raises exactly when the
  linked command does.\<close>

lemma alias_exec_undefined:
  "alias_exec R a message args = Inr (v, evs) \<Longrightarrow> v = JUndefined"
  by (auto simp: alias_exec_def split: sum.splits)

lemma alias_exec_raises:
  "alias_exec R a message args = Inl x \<longleftrightarrow> exec R (link a) message args = Inl x"
  by (auto simp: alias_exec_def split: sum.splits)

text \<open>No constructor or setter of the module assigns \<^verbatim>\<open>_manager\<close>.\<close>

lemma built_manager: "built C p \<Longrightarrow> manager p = None"
  by (induction rule: built.induct)
     (simp_all add: CommandProperty_new_def setArgs_def noArgs_def allowDM_set_def
        setFixedPermissions_def forceWhitelist_def)

section \<open>Dispatch: \<^verbatim>\<open>exec\<close>\<close>

text \<open>
  Claim C1 (\<^verbatim>\<open>exec\<close> checks, then runs, refuses silently or replies with the error).
  The code does not get that far on a global object without a \<^verbatim>\<open>checkProperties\<close>
  binding: the bare identifier in \<^verbatim>\<open>exec\<close> is unresolved, and every call raises a
  \<^verbatim>\<open>ReferenceError\<close> before any check, run or reply, whatever the command, the message
  and the arguments.
\<close>

theorem exec_raises_ReferenceError:
  "exec \<lparr> globals = Map.empty, StringToNumber = N \<rparr> this message args
     = Inl (ReferenceError ''checkProperties'')"
  by (simp add: exec_def)

section \<open>The blacklist scan\<close>

text \<open>
  Claim C2 as stated (a matching channel entry of the blacklist does not block the
  command) fails: user 200 is whitelisted and passes the check with an empty blacklist,
  and is refused with \<^verbatim>\<open>false\<close> once the blacklist holds the channel 7 the message
  comes from.
\<close>

theorem channel_blacklist_blocks_counterexample:
  "channel_entry ''7'' \<in> set (blacklist (properties (cmd0 (props0 [channel_entry ''7'']))))
   \<and> entry_id (channel_entry ''7'') = channel_id (channel msg0)
   \<and> checkProperties E0 (cmd0 (props0 [])) msg0 [] = RBool True
   \<and> checkProperties E0 (cmd0 (props0 [channel_entry ''7''])) msg0 [] = RBool False"
  by (simp add: checkProperties_def cmd0_def props0_def DefaultCommand_new_def
      CommandProperty_new_def msg0_def channel_entry_def user_entry_def
      blacklist_step_def whitelist_step_def Let_def)

text \<open>
  Claim C2, amended: when the blacklist holds a channel entry whose id is the message's
  channel id, the channel-match branch sets the scan's result to \<^verbatim>\<open>false\<close>, which is
  not \<^verbatim>\<open>null\<close> and is returned. \<^verbatim>\<open>checkProperties\<close> returns \<^verbatim>\<open>false\<close> or, when a
  later user entry overwrites it, the blacklisted-user code; never \<^verbatim>\<open>true\<close>. If no
  user entry names the caller, the result is \<^verbatim>\<open>false\<close>: a silent refusal.
\<close>

theorem channel_blacklist_denies:
  assumes "e \<in> set (blacklist (properties this))"
    and "entry_type e = ''channel''"
    and "entry_id e = channel_id (channel message)"
  shows "(checkProperties E this message args = RBool False \<or>
          checkProperties E this message args = RStr (blacklistedUser E))
         \<and> ((\<forall>u\<in>set (blacklist (properties this)).
                entry_type u = ''user'' \<longrightarrow> entry_id u \<noteq> member_id (member message))
              \<longrightarrow> checkProperties E this message args = RBool False)"
proof -
  let ?scan = "blacklist_scan E (channel_id (channel message)) (member_id (member message)) None
                 (blacklist (properties this))"
  have hit: "?scan \<in> {Some (RBool False), Some (RStr (blacklistedUser E))}"
    using assms by (intro blacklist_scan_channel_match) auto
  have res: "?scan = Some r \<Longrightarrow> checkProperties E this message args = r" for r
    by (simp add: checkProperties_def Let_def)
  have first: "checkProperties E this message args = RBool False \<or>
          checkProperties E this message args = RStr (blacklistedUser E)"
    using hit res by auto
  have second: "checkProperties E this message args = RBool False"
    if "\<forall>u\<in>set (blacklist (properties this)).
                entry_type u = ''user'' \<longrightarrow> entry_id u \<noteq> member_id (member message)"
  proof -
    have "?scan \<in> {None, Some (RBool False)}"
      using that by (intro blacklist_scan_only_channel) auto
    with hit have "?scan = Some (RBool False)" by auto
    then show ?thesis by (rule res)
  qed
  from first second show ?thesis by blast
qed

theorem channel_blacklist_denies_witness:
  "channel_entry ''7'' \<in> set (blacklist (properties (cmd0 (props0 [channel_entry ''7'']))))
   \<and> entry_type (channel_entry ''7'') = ''channel''
   \<and> entry_id (channel_entry ''7'') = channel_id (channel msg0)
   \<and> checkProperties E0 (cmd0 (props0 [channel_entry ''7''])) msg0 [''a''] = RBool False"
proof -
  have a: "channel_entry ''7'' \<in> set (blacklist (properties (cmd0 (props0 [channel_entry ''7'']))))"
    by (simp add: cmd0_def props0_def DefaultCommand_new_def)
  have b: "entry_type (channel_entry ''7'') = ''channel''"
    by (simp add: channel_entry_def)
  have c: "entry_id (channel_entry ''7'') = channel_id (channel msg0)"
    by (simp add: channel_entry_def msg0_def)
  have d: "\<forall>u\<in>set (blacklist (properties (cmd0 (props0 [channel_entry ''7''])))).
             entry_type u = ''user'' \<longrightarrow> entry_id u \<noteq> member_id (member msg0)"
    by (simp add: cmd0_def props0_def DefaultCommand_new_def channel_entry_def)
  from channel_blacklist_denies [OF a b c, of E0 "[''a'']"] d a b c show ?thesis by blast
qed

text \<open>
  Claim C3 (a blacklisted user gets the blacklisted-user code). The loop does not stop
  at the user match: with the blacklist [user 200, channel 7], user 200 writing in
  channel 7 gets \<^verbatim>\<open>false\<close>, the later channel match having overwritten the code. With
  the two entries in the other order the code is returned.
\<close>

theorem blacklisted_user_overwritten:
  "checkProperties E0 (cmd0 (props0 [user_entry ''200'', channel_entry ''7''])) msg0 [] = RBool False
   \<and> checkProperties E0 (cmd0 (props0 [channel_entry ''7'', user_entry ''200''])) msg0 []
       = RStr (blacklistedUser E0)"
  by (simp add: checkProperties_def cmd0_def props0_def DefaultCommand_new_def
      CommandProperty_new_def msg0_def channel_entry_def user_entry_def
      blacklist_step_def Let_def)

section \<open>The whitelist scan\<close>

text \<open>
  Claim C4: in the whitelist scan, a role entry with \<^verbatim>\<open>exact\<close> true matches iff the
  caller holds the role with that id; with \<^verbatim>\<open>exact\<close> false it matches iff the
  referenced role resolves in the guild's roles and the rank of the caller's highest role
  is at least its rank; an entry whose role does not resolve does not match. The scan of
  the one entry, started as the code starts it (\<^verbatim>\<open>isWhitelisted = null\<close>), ends with
  \<^verbatim>\<open>true\<close> exactly on a match.
\<close>

theorem whitelist_role_entry_match:
  assumes "entry_type e = ''role''"
  shows "(exact e = Some True \<longrightarrow>
            (whitelist_scan message None [e] = Some True
               \<longleftrightarrow> roles (member message) (entry_id e) \<noteq> None))
       \<and> (exact e = Some False \<longrightarrow>
            (whitelist_scan message None [e] = Some True
               \<longleftrightarrow> (\<exists>lowRole. guild_roles (guild message) (entry_id e) = Some lowRole
                      \<and> calculatedPosition (highestRole (member message))
                          \<ge> calculatedPosition lowRole)))
       \<and> (exact e = Some False \<longrightarrow> guild_roles (guild message) (entry_id e) = None
            \<longrightarrow> whitelist_scan message None [e] = None)"
  using assms by (auto simp: whitelist_step_def Let_def split: option.splits)

theorem whitelist_role_entry_match_witness:
  "entry_type (role_entry ''r5'' True) = ''role''
   \<and> whitelist_scan msg0 None [role_entry ''r5'' True] = Some True
   \<and> whitelist_scan msg0 None [role_entry ''r2'' True] \<noteq> Some True
   \<and> whitelist_scan msg0 None [role_entry ''r2'' False] = Some True
   \<and> whitelist_scan msg0 None [role_entry ''r9'' False] \<noteq> Some True
   \<and> whitelist_scan msg0 None [role_entry ''r404'' False] = None"
proof -
  have t: "entry_type (role_entry i x) = ''role''" for i x
    by (simp add: role_entry_def)
  have a: "whitelist_scan msg0 None [role_entry ''r5'' True] = Some True"
    using whitelist_role_entry_match [OF t, of "''r5''" True msg0]
    by (simp add: role_entry_def msg0_def)
  have b: "whitelist_scan msg0 None [role_entry ''r2'' True] \<noteq> Some True"
    using whitelist_role_entry_match [OF t, of "''r2''" True msg0]
    by (simp add: role_entry_def msg0_def)
  have c: "whitelist_scan msg0 None [role_entry ''r2'' False] = Some True"
    using whitelist_role_entry_match [OF t, of "''r2''" False msg0]
    by (simp add: role_entry_def msg0_def helper_def moderator_def)
  have d: "whitelist_scan msg0 None [role_entry ''r9'' False] \<noteq> Some True"
    using whitelist_role_entry_match [OF t, of "''r9''" False msg0]
    by (simp add: role_entry_def msg0_def admin_def moderator_def)
  have e: "whitelist_scan msg0 None [role_entry ''r404'' False] = None"
    using whitelist_role_entry_match [OF t, of "''r404''" False msg0]
    by (simp add: role_entry_def msg0_def)
  from t a b c d e show ?thesis by blast
qed

text \<open>
  Claim C5 as stated (default-deny with an empty whitelist always gives the
  permission-error code) fails: the blacklist is scanned first, and a call from a
  blacklisted channel is refused with \<^verbatim>\<open>false\<close>, not with the code.
\<close>

theorem empty_whitelist_counterexample:
  "useWhitelist (props2 [channel_entry ''7''])
   \<and> whitelist (props2 [channel_entry ''7'']) = []
   \<and> checkProperties E0 (cmd0 (props2 [channel_entry ''7''])) msg0 []
        = RBool False
   \<and> checkProperties E0 (cmd0 (props2 [channel_entry ''7''])) msg0 []
        \<noteq> RStr (permissionError E0)"
  by (simp add: checkProperties_def cmd0_def props2_def props0_def DefaultCommand_new_def
      CommandProperty_new_def msg0_def channel_entry_def blacklist_step_def Let_def)

text \<open>
  Claim C5, amended: with \<^verbatim>\<open>useWhitelist\<close> true and an empty whitelist every call is
  denied, whoever the caller is; the result is the permission-error code whenever no
  entry of the blacklist matches the caller or the channel (a match is answered first,
  with the blacklist's own result).
\<close>

theorem empty_whitelist_denies:
  assumes "useWhitelist (properties this)" and "whitelist (properties this) = []"
  shows "checkProperties E this message args \<noteq> RBool True
       \<and> ((\<forall>e\<in>set (blacklist (properties this)).
              \<not> (entry_type e = ''user'' \<and> entry_id e = member_id (member message)) \<and>
              \<not> (entry_type e = ''channel'' \<and> entry_id e = channel_id (channel message)))
           \<longrightarrow> checkProperties E this message args = RStr (permissionError E))"
proof -
  have "checkProperties E this message args = RStr (permissionError E)"
    if "\<forall>e\<in>set (blacklist (properties this)).
              \<not> (entry_type e = ''user'' \<and> entry_id e = member_id (member message)) \<and>
              \<not> (entry_type e = ''channel'' \<and> entry_id e = channel_id (channel message))"
  proof -
    from that have "blacklist_scan E (channel_id (channel message)) (member_id (member message)) None
                 (blacklist (properties this)) = None"
      by (rule blacklist_scan_no_match)
    with assms show ?thesis by (simp add: checkProperties_def Let_def)
  qed
  with checkProperties_empty_whitelist [OF assms] show ?thesis by blast
qed

theorem empty_whitelist_denies_witness:
  "useWhitelist (properties (cmd0 (props2 [user_entry ''300''])))
   \<and> whitelist (properties (cmd0 (props2 [user_entry ''300'']))) = []
   \<and> checkProperties E0 (cmd0 (props2 [user_entry ''300''])) msg0 []
        = RStr (permissionError E0)"
proof -
  let ?c = "cmd0 (props2 [user_entry ''300''])"
  have a: "useWhitelist (properties ?c)"
    by (simp add: cmd0_def props2_def props0_def DefaultCommand_new_def CommandProperty_new_def)
  have b: "whitelist (properties ?c) = []"
    by (simp add: cmd0_def props2_def props0_def DefaultCommand_new_def)
  have c: "\<forall>e\<in>set (blacklist (properties ?c)).
              \<not> (entry_type e = ''user'' \<and> entry_id e = member_id (member msg0)) \<and>
              \<not> (entry_type e = ''channel'' \<and> entry_id e = channel_id (channel msg0))"
    by (simp add: cmd0_def props2_def props0_def DefaultCommand_new_def user_entry_def msg0_def)
  from empty_whitelist_denies [OF a b, of E0 msg0 "[]"] a b c show ?thesis by blast
qed

section \<open>\<^verbatim>\<open>DefaultAlias.exec\<close>\<close>

text \<open>
  Claim C6 (an alias's \<^verbatim>\<open>exec\<close> gives the result of the linked command's
  \<^verbatim>\<open>exec\<close>). The alias calls the linked \<^verbatim>\<open>exec\<close> and drops its value: where the
  linked call returns, here the base \<^verbatim>\<open>run\<close>'s pair for a caller who passes the check,
  the alias returns \<^verbatim>\<open>undefined\<close>. The global binding makes the linked call return at
  all; without it both calls raise the same \<^verbatim>\<open>ReferenceError\<close>.
\<close>

theorem alias_exec_drops_result:
  "exec (bound_realm N (checkProperties E0 (cmd0 (props0 [])))) (cmd0 (props0 [])) msg0 []
     = Inr (JArr [JBool False, JStr (notImplemented E0)], [])
   \<and> alias_exec (bound_realm N (checkProperties E0 (cmd0 (props0 []))))
        (DefaultAlias_new ''p'' (cmd0 (props0 []))) msg0 []
     = Inr (JUndefined, [])"
proof -
  have chk: "checkProperties E0 (cmd0 (props0 [])) msg0 [] = RBool True"
    by (simp add: checkProperties_def cmd0_def props0_def DefaultCommand_new_def
      CommandProperty_new_def msg0_def user_entry_def whitelist_step_def Let_def)
  have ex: "exec (bound_realm N (checkProperties E0 (cmd0 (props0 [])))) (cmd0 (props0 [])) msg0 []
     = Inr (JArr [JBool False, JStr (notImplemented E0)], [])"
  proof -
    have "run (cmd0 (props0 [])) msg0 [] = JArr [JBool False, JStr (notImplemented E0)]"
      by (simp add: cmd0_def DefaultCommand_new_def DefaultCommand_run_def)
    then show ?thesis by (simp add: exec_bound chk eq_true_def)
  qed
  then show ?thesis
    by (simp add: alias_exec_def DefaultAlias_new_def)
qed

section \<open>Loading persisted permissions\<close>

text \<open>
  Claim C7: when the fetch of \<^verbatim>\<open>"cmd_lists"\<close> returns a record without data, the load
  that \<^verbatim>\<open>finish\<close> invokes sets the whitelist to the empty list, logs
  \<^verbatim>\<open>"Failed to load whitelist database"\<close> under the command's label and returns
  (\<^verbatim>\<open>false\<close> from \<^verbatim>\<open>_updatePermissions\<close>, \<^verbatim>\<open>undefined\<close> from \<^verbatim>\<open>finish\<close>) without
  raising and without a commit; under default-deny the resulting properties let no call
  through. The fetch is reached only with \<^verbatim>\<open>_manager\<close> assigned and a
  \<^verbatim>\<open>"Database"\<close> system present.
\<close>

theorem updatePermissions_no_data:
  assumes "manager this = Some mgr"
    and "getSystem mgr ''Database'' = Some dbs"
    and "getDatabase dbs ''cmd_lists'' = Some dbr"
    and "data dbr = None"
  shows "updatePermissions this =
           Inr (JBool False, this\<lparr> whitelist := [] \<rparr>,
                [Logged (''CommandProperty '' @ command this)
                   [JStr ''Failed to load whitelist database'']])
       \<and> finish this =
           Inr (JUndefined, this\<lparr> whitelist := [] \<rparr>,
                [Logged (''CommandProperty '' @ command this)
                   [JStr ''Failed to load whitelist database'']])
       \<and> (useWhitelist this \<longrightarrow>
            (\<forall>E c message args. properties c = this\<lparr> whitelist := [] \<rparr>
               \<longrightarrow> checkProperties E c message args \<noteq> RBool True))"
proof -
  have u: "updatePermissions this =
           Inr (JBool False, this\<lparr> whitelist := [] \<rparr>,
                [Logged (''CommandProperty '' @ command this)
                   [JStr ''Failed to load whitelist database'']])"
    using assms by (simp add: updatePermissions_def Utils_log_def)
  then have f: "finish this =
           Inr (JUndefined, this\<lparr> whitelist := [] \<rparr>,
                [Logged (''CommandProperty '' @ command this)
                   [JStr ''Failed to load whitelist database'']])"
    by (simp add: finish_def)
  have d: "checkProperties E c message args \<noteq> RBool True"
    if "useWhitelist this" and "properties c = this\<lparr> whitelist := [] \<rparr>" for E c message args
    using that by (intro checkProperties_empty_whitelist) simp_all
  from u f d show ?thesis by blast
qed

theorem updatePermissions_no_data_witness:
  "manager props1 = Some mgr1
   \<and> getSystem mgr1 ''Database'' = Some dbs1
   \<and> getDatabase dbs1 ''cmd_lists'' = Some \<lparr> data = None \<rparr>
   \<and> data \<lparr> data = None \<rparr> = None
   \<and> finish props1 =
        Inr (JUndefined, props1\<lparr> whitelist := [] \<rparr>,
             [Logged ''CommandProperty ping'' [JStr ''Failed to load whitelist database'']])"
proof -
  have a: "manager props1 = Some mgr1" by (simp add: props1_def)
  have b: "getSystem mgr1 ''Database'' = Some dbs1" by (simp add: mgr1_def)
  have c: "getDatabase dbs1 ''cmd_lists'' = Some \<lparr> data = None \<rparr>" by (simp add: dbs1_def)
  have d: "data \<lparr> data = None \<rparr> = None" by simp
  have n: "command props1 = ''ping''"
    by (simp add: props1_def setFixedPermissions_def CommandProperty_new_def)
  from updatePermissions_no_data [OF a b c d] a b c d n show ?thesis by simp
qed

section \<open>Argument bounds\<close>

text \<open>
  Claim C8: once the blacklist scan finds nothing, the whitelist check passes and the
  channel-type check passes, a command with \<^verbatim>\<open>minArgs = 2\<close> and \<^verbatim>\<open>maxArgs = 4\<close> gets
  the min-arg-limit code for 1 argument, the max-arg-limit code for 5 and \<^verbatim>\<open>true\<close> for 2,
  3 or 4; a bound equal to -1 is not checked: with \<^verbatim>\<open>minArgs = -1\<close> only the upper bound
  decides, with \<^verbatim>\<open>maxArgs = -1\<close> only the lower one.
\<close>

theorem arg_bounds:
  assumes bl: "blacklist_scan E (channel_id (channel message)) (member_id (member message)) None
                 (blacklist (properties this)) = None"
    and wl: "useWhitelist (properties this) \<longrightarrow>
               whitelist_scan message None (whitelist (properties this)) = Some True"
    and dm: "allowDM (properties this) \<or> channel_type (channel message) \<noteq> ''dm''"
  shows "(minArgs (properties this) = 2 \<and> maxArgs (properties this) = 4 \<longrightarrow>
            (length args = 1 \<longrightarrow> checkProperties E this message args = RStr (minArgLimit E))
          \<and> (length args = 5 \<longrightarrow> checkProperties E this message args = RStr (maxArgLimit E))
          \<and> (length args \<in> {2, 3, 4} \<longrightarrow> checkProperties E this message args = RBool True))
       \<and> (minArgs (properties this) = -1 \<longrightarrow>
            checkProperties E this message args =
              (if maxArgs (properties this) \<noteq> -1 \<and> maxArgs (properties this) < int (length args)
               then RStr (maxArgLimit E) else RBool True))
       \<and> (maxArgs (properties this) = -1 \<longrightarrow>
            checkProperties E this message args =
              (if minArgs (properties this) \<noteq> -1 \<and> minArgs (properties this) > int (length args)
               then RStr (minArgLimit E) else RBool True))"
proof -
  have r: "checkProperties E this message args =
             (if minArgs (properties this) \<noteq> -1 \<and> minArgs (properties this) > int (length args)
              then RStr (minArgLimit E)
              else if maxArgs (properties this) \<noteq> -1 \<and> maxArgs (properties this) < int (length args)
              then RStr (maxArgLimit E)
              else RBool True)"
    using bl wl dm by (auto simp: checkProperties_def Let_def)
  show ?thesis unfolding r by auto
qed

theorem arg_bounds_witness:
  "blacklist_scan E0 (channel_id (channel msg0)) (member_id (member msg0)) None
      (blacklist (properties (cmd0 props3))) = None
   \<and> whitelist_scan msg0 None (whitelist (properties (cmd0 props3))) = Some True
   \<and> allowDM (properties (cmd0 props3))
   \<and> minArgs (properties (cmd0 props3)) = 2 \<and> maxArgs (properties (cmd0 props3)) = 4
   \<and> checkProperties E0 (cmd0 props3) msg0 [''a''] = RStr (minArgLimit E0)
   \<and> checkProperties E0 (cmd0 props3) msg0 [''a'', ''b'', ''c'', ''d'', ''e''] = RStr (maxArgLimit E0)
   \<and> checkProperties E0 (cmd0 props3) msg0 [''a'', ''b''] = RBool True
   \<and> checkProperties E0 (cmd0 props3) msg0 [''a'', ''b'', ''c''] = RBool True
   \<and> checkProperties E0 (cmd0 props3) msg0 [''a'', ''b'', ''c'', ''d''] = RBool True
   \<and> minArgs (properties (cmd0 (props0 []))) = -1 \<and> maxArgs (properties (cmd0 (props0 []))) = -1
   \<and> checkProperties E0 (cmd0 (props0 [])) msg0 [] = RBool True
   \<and> checkProperties E0 (cmd0 (props0 [])) msg0 [''a'', ''b'', ''c'', ''d'', ''e'', ''f''] = RBool True"
proof -
  have p3: "properties (cmd0 props3) =
              \<lparr> command = ''ping'', minArgs = 2, maxArgs = 4, allowDM = True,
                fixedPermissions = True, whitelist = [user_entry ''200''], blacklist = [],
                useWhitelist = True, manager = None \<rparr>"
    by (simp add: cmd0_def props3_def props0_def setArgs_def DefaultCommand_new_def
        CommandProperty_new_def)
  have p0: "properties (cmd0 (props0 [])) =
              \<lparr> command = ''ping'', minArgs = -1, maxArgs = -1, allowDM = True,
                fixedPermissions = True, whitelist = [user_entry ''200''], blacklist = [],
                useWhitelist = True, manager = None \<rparr>"
    by (simp add: cmd0_def props0_def DefaultCommand_new_def CommandProperty_new_def)
  have wl: "whitelist_scan msg0 None [user_entry ''200''] = Some True"
    by (simp add: whitelist_step_def Let_def) (simp add: user_entry_def msg0_def)
  have bl3: "blacklist_scan E0 (channel_id (channel msg0)) (member_id (member msg0)) None
      (blacklist (properties (cmd0 props3))) = None"
    by (simp add: p3)
  have wl3: "whitelist_scan msg0 None (whitelist (properties (cmd0 props3))) = Some True"
    using wl by (simp add: p3)
  have dm3: "allowDM (properties (cmd0 props3))"
    by (simp add: p3)
  have b3: "minArgs (properties (cmd0 props3)) = 2 \<and> maxArgs (properties (cmd0 props3)) = 4"
    by (simp add: p3)
  have bl0: "blacklist_scan E0 (channel_id (channel msg0)) (member_id (member msg0)) None
      (blacklist (properties (cmd0 (props0 [])))) = None"
    by (simp add: p0)
  have wl0: "useWhitelist (properties (cmd0 (props0 []))) \<longrightarrow>
      whitelist_scan msg0 None (whitelist (properties (cmd0 (props0 [])))) = Some True"
    using wl by (simp add: p0)
  have dm0: "allowDM (properties (cmd0 (props0 []))) \<or> channel_type (channel msg0) \<noteq> ''dm''"
    by (simp add: p0)
  have b0: "minArgs (properties (cmd0 (props0 []))) = -1 \<and> maxArgs (properties (cmd0 (props0 []))) = -1"
    by (simp add: p0)
  have t3: "length args = 1 \<longrightarrow> checkProperties E0 (cmd0 props3) msg0 args = RStr (minArgLimit E0)"
       "length args = 5 \<longrightarrow> checkProperties E0 (cmd0 props3) msg0 args = RStr (maxArgLimit E0)"
       "length args \<in> {2, 3, 4} \<longrightarrow> checkProperties E0 (cmd0 props3) msg0 args = RBool True"
    for args
    using arg_bounds [OF bl3, of args] wl3 dm3 b3 by blast+
  have t0: "checkProperties E0 (cmd0 (props0 [])) msg0 args = RBool True" for args
    using arg_bounds [OF bl0 wl0 dm0, of args] b0 by simp
  have "checkProperties E0 (cmd0 props3) msg0 [''a''] = RStr (minArgLimit E0)"
    using t3(1) [of "[''a'']"] by simp
  moreover have "checkProperties E0 (cmd0 props3) msg0 [''a'', ''b'', ''c'', ''d'', ''e''] = RStr (maxArgLimit E0)"
    using t3(2) [of "[''a'', ''b'', ''c'', ''d'', ''e'']"] by simp
  moreover have "checkProperties E0 (cmd0 props3) msg0 [''a'', ''b''] = RBool True"
    using t3(3) [of "[''a'', ''b'']"] by simp
  moreover have "checkProperties E0 (cmd0 props3) msg0 [''a'', ''b'', ''c''] = RBool True"
    using t3(3) [of "[''a'', ''b'', ''c'']"] by simp
  moreover have "checkProperties E0 (cmd0 props3) msg0 [''a'', ''b'', ''c'', ''d''] = RBool True"
    using t3(3) [of "[''a'', ''b'', ''c'', ''d'']"] by simp
  ultimately show ?thesis using bl3 wl3 dm3 b3 b0 t0 by simp
qed

section \<open>\<^verbatim>\<open>finish\<close> on a property object of this module\<close>

text \<open>
  Claim C9: on every \<^verbatim>\<open>CommandProperty\<close> made by the constructor and the setters,
  \<^verbatim>\<open>_manager\<close> is unassigned, so \<^verbatim>\<open>finish\<close> raises a \<^verbatim>\<open>TypeError\<close> at
  \<^verbatim>\<open>this._manager.getSystem\<close> and loads nothing.
\<close>

theorem finish_on_built_raises:
  assumes "built C p"
  shows "manager p = None
       \<and> updatePermissions p = Inl (TypeError ''getSystem'')
       \<and> finish p = Inl (TypeError ''getSystem'')"
proof -
  from assms have m: "manager p = None" by (rule built_manager)
  then have u: "updatePermissions p = Inl (TypeError ''getSystem'')"
    by (simp add: updatePermissions_def)
  then have "finish p = Inl (TypeError ''getSystem'')"
    by (simp add: finish_def)
  with m u show ?thesis by simp
qed

theorem finish_on_built_raises_witness:
  "built C0 (setFixedPermissions False (CommandProperty_new C0 ''ping''))
   \<and> finish (setFixedPermissions False (CommandProperty_new C0 ''ping''))
       = Inl (TypeError ''getSystem'')"
proof -
  have b: "built C0 (setFixedPermissions False (CommandProperty_new C0 ''ping''))"
    by (intro built_setFixedPermissions built_new)
  from finish_on_built_raises [OF b] b show ?thesis by simp
qed

section \<open>Entries of unrecognised type\<close>

text \<open>
  Claim C10: the result of \<^verbatim>\<open>checkProperties\<close> does not change when every blacklist
  entry of a type other than \<^verbatim>\<open>user\<close> and \<^verbatim>\<open>channel\<close>, and every whitelist entry of a
  type other than \<^verbatim>\<open>user\<close> and \<^verbatim>\<open>role\<close>, is removed.
\<close>

theorem unrecognised_entries_ignored:
  "checkProperties E
     (this\<lparr> properties := (properties this)
        \<lparr> blacklist := filter (\<lambda>e. entry_type e = ''user'' \<or> entry_type e = ''channel'')
                          (blacklist (properties this)),
          whitelist := filter (\<lambda>e. entry_type e = ''user'' \<or> entry_type e = ''role'')
                          (whitelist (properties this)) \<rparr> \<rparr>)
     message args
   = checkProperties E this message args"
proof -
  let ?bl = "filter (\<lambda>e. entry_type e = ''user'' \<or> entry_type e = ''channel'')
               (blacklist (properties this))"
  let ?wl = "filter (\<lambda>e. entry_type e = ''user'' \<or> entry_type e = ''role'')
               (whitelist (properties this))"
  have b: "blacklist_scan E c u None ?bl = blacklist_scan E c u None (blacklist (properties this))"
    for c u by (rule blacklist_scan_filter)
  have w: "whitelist_scan message None ?wl = whitelist_scan message None (whitelist (properties this))"
    by (rule whitelist_scan_filter)
  show ?thesis
    by (cases "blacklist_scan E (channel_id (channel message)) (member_id (member message)) None
                 (blacklist (properties this))")
       (simp_all add: checkProperties_def Let_def b w)
qed

end
